theory Spec2Isabelle
  imports Main "HOL-Library.Word" "HOL-Library.Multiset"
begin

section \<open>JavaScript strings\<close>

text \<open>
  A JavaScript string is a sequence of UTF-16 code units; \<open>length\<close>, \<open>charAt\<close>,
  \<open>slice\<close> and \<open>substring\<close> count code units. String literals of the source are
  ASCII and are written through \<open>js\<close>.
\<close>

type_synonym cunit = "16 word"
type_synonym jsstring = "cunit list"

definition js :: "string \<Rightarrow> jsstring" where
  "js s = map of_char s"

text \<open>
  Library functions the component calls but does not define: the Unicode upper-case
  mapping of a single non-ASCII code unit (\<open>String.prototype.toUpperCase\<close>, which may
  return more than one unit) and \<open>removeMarkdown\<close> of the package \<open>remove-markdown\<close>.
  They are parameters of the model.
\<close>

record runtime =
  upperNonAscii :: "cunit \<Rightarrow> jsstring"
  removeMarkdown :: "jsstring \<Rightarrow> jsstring"

text \<open>A runtime for evaluating the model on ASCII text without markdown.\<close>

definition asciiRuntime :: runtime where
  "asciiRuntime = \<lparr>upperNonAscii = (\<lambda>c. [c]), removeMarkdown = (\<lambda>s. s)\<rparr>"

text \<open>
  White space as \<open>trim()\<close> and the regular expression class \<open>\s\<close> define it
  (ECMAScript WhiteSpace and LineTerminator).
\<close>

definition isWhiteSpace :: "cunit \<Rightarrow> bool" where
  "isWhiteSpace c \<longleftrightarrow>
     c \<in> {0x09, 0x0A, 0x0B, 0x0C, 0x0D, 0x20, 0xA0, 0x1680, 0x2028, 0x2029,
          0x202F, 0x205F, 0x3000, 0xFEFF}
     \<or> (0x2000 \<le> c \<and> c \<le> 0x200A)"

definition trim :: "jsstring \<Rightarrow> jsstring" where
  "trim s = rev (dropWhile isWhiteSpace (rev (dropWhile isWhiteSpace s)))"

text \<open>\<open>c.toUpperCase()\<close> for the one-unit string \<open>c\<close>.\<close>

definition toUpperCase1 :: "runtime \<Rightarrow> cunit \<Rightarrow> jsstring" where
  "toUpperCase1 rt c =
     (if 0x61 \<le> c \<and> c \<le> 0x7A then [c - 0x20]
      else if c < 0x80 then [c]
      else upperNonAscii rt c)"

text \<open>\<open>s.split(/[.!?]/)\<close>: the pieces between the terminators, empty pieces kept.\<close>

definition isTerminator :: "cunit \<Rightarrow> bool" where
  "isTerminator c \<longleftrightarrow> c = 0x2E \<or> c = 0x21 \<or> c = 0x3F"

fun split_on :: "(cunit \<Rightarrow> bool) \<Rightarrow> jsstring \<Rightarrow> jsstring list" where
  "split_on p [] = [[]]"
| "split_on p (c # cs) =
     (if p c then [] # split_on p cs
      else (case split_on p cs of [] \<Rightarrow> [[c]] | s # ss \<Rightarrow> (c # s) # ss))"

section \<open>Title generator\<close>

text \<open>
  The regular expression
  \<open>/^(what|who|when|where|why|how|explain|describe|analyze|discuss)\s+/i\<close>.
  Without the \<open>u\<close> flag an ASCII letter of the pattern matches exactly its two
  ASCII cases. The alternatives are tried in order, each followed by the greedy
  \<open>\s+\<close>; the match is replaced by the empty string.
\<close>

definition leadWords :: "string list" where
  "leadWords = [''what'', ''who'', ''when'', ''where'', ''why'', ''how'',
                ''explain'', ''describe'', ''analyze'', ''discuss'']"

fun matchWord :: "jsstring \<Rightarrow> jsstring \<Rightarrow> jsstring option" where
  "matchWord [] s = Some s"
| "matchWord (p # ps) [] = None"
| "matchWord (p # ps) (c # cs) =
     (if c = p \<or> c = p - 0x20 then matchWord ps cs else None)"

fun matchLead :: "jsstring list \<Rightarrow> jsstring \<Rightarrow> jsstring option" where
  "matchLead [] s = None"
| "matchLead (w # ws) s =
     (case matchWord w s of
        Some (c # cs) \<Rightarrow>
          if isWhiteSpace c then Some (dropWhile isWhiteSpace cs) else matchLead ws s
      | _ \<Rightarrow> matchLead ws s)"

definition stripLead :: "jsstring \<Rightarrow> jsstring" where
  "stripLead s = (case matchLead (map js leadWords) s of Some r \<Rightarrow> r | None \<Rightarrow> s)"

text \<open>
  The value of \<open>firstSentence\<close> when \<open>generateSessionTitle\<close> reaches its length
  test: the first piece of the trimmed input (the whole trimmed input when that
  piece is empty), without the lead word and without question marks.
\<close>

definition cleanedSegment :: "jsstring \<Rightarrow> jsstring" where
  "cleanedSegment userInput =
     (let cleanInput = trim userInput;
          sentences = split_on isTerminator cleanInput;
          firstSentence = (case sentences of
                             [] \<Rightarrow> cleanInput
                           | s # _ \<Rightarrow> if s = [] then cleanInput else s)
      in filter (\<lambda>c. c \<noteq> 0x3F) (stripLead firstSentence))"

definition generateSessionTitle :: "runtime \<Rightarrow> jsstring \<Rightarrow> jsstring" where
  "generateSessionTitle rt userInput =
     (if trim userInput = [] then js ''New Analysis''
      else
        let firstSentence = cleanedSegment userInput in
        if length firstSentence \<le> 40
        then (case firstSentence of [] \<Rightarrow> [] | c # cs \<Rightarrow> toUpperCase1 rt c @ cs)
        else trim (take 37 firstSentence) @ js ''...'')"

section \<open>Session ordering\<close>

text \<open>
  A session document as the sessions snapshot delivers it: the document id and the
  fields \<open>title\<close>, \<open>createdAt\<close> (milliseconds; \<open>None\<close> while the server
  timestamp is pending) and \<open>isPinned\<close>.
\<close>

type_synonym uid = nat
type_synonym docid = nat

record session =
  session_id :: docid
  title :: jsstring
  createdAt :: "int option"
  isPinned :: bool

text \<open>\<open>s.createdAt?.toMillis() || 0\<close>\<close>

definition millis :: "session \<Rightarrow> int" where
  "millis s = (case createdAt s of None \<Rightarrow> 0 | Some t \<Rightarrow> t)"

text \<open>The comparator passed to \<open>sort\<close>.\<close>

definition compareSessions :: "session \<Rightarrow> session \<Rightarrow> int" where
  "compareSessions a b =
     (if isPinned a \<and> \<not> isPinned b then - 1
      else if \<not> isPinned a \<and> isPinned b then 1
      else millis b - millis a)"

text \<open>
  \<open>Array.prototype.sort\<close> is a stable sort: an element stays in front of a later
  one unless the comparator is positive on them. Insertion from the right end
  computes that order.
\<close>

fun insertBy :: "('a \<Rightarrow> 'a \<Rightarrow> int) \<Rightarrow> 'a \<Rightarrow> 'a list \<Rightarrow> 'a list" where
  "insertBy cmp x [] = [x]"
| "insertBy cmp x (y # ys) = (if cmp x y \<le> 0 then x # y # ys else y # insertBy cmp x ys)"

fun sortBy :: "('a \<Rightarrow> 'a \<Rightarrow> int) \<Rightarrow> 'a list \<Rightarrow> 'a list" where
  "sortBy cmp [] = []"
| "sortBy cmp (x # xs) = insertBy cmp x (sortBy cmp xs)"

definition sortedSessions :: "session list \<Rightarrow> session list" where
  "sortedSessions sessions = sortBy compareSessions sessions"

section \<open>The chat component and its collaborators\<close>

subsection \<open>Messages, requests and promise outcomes\<close>

datatype sender = User | Bot

record message =
  sender :: sender
  msg_text :: jsstring
  sources :: "(jsstring \<times> jsstring) list option"

text \<open>The body of \<open>POST /analyze\<close>.\<close>

record request =
  query :: jsstring
  chat_history :: "(sender \<times> jsstring) list"

text \<open>
  What \<open>fetch\<close> resolves to, with the body as \<open>response.json()\<close> reads it: an ok
  response with \<open>answer\<close> and optional \<open>sources\<close>, an ok response whose body does
  not parse (the message of the error thrown), or a response that is not ok, with
  its status, status text and body.
\<close>

datatype errbody = Unparsable | Parsed "jsstring option"

datatype response =
    OkJson jsstring "(jsstring \<times> jsstring) list option"
  | OkMalformed jsstring
  | NotOk nat jsstring errbody

text \<open>
  How an awaited promise settles: a store write is acknowledged, a promise is
  rejected with an error message, or \<open>fetch\<close> delivers a response.
\<close>

datatype outcome = Fulfilled | Rejected jsstring | Replied response

subsection \<open>Suspended calls\<close>

text \<open>
  The arguments of one \<open>getAnalysis\<close> call together with \<open>user\<close> and \<open>messages\<close>
  of the render whose closure it runs in.
\<close>

record exchange =
  x_user :: uid
  x_sessionId :: docid
  x_queryText :: jsstring
  x_isNewSession :: bool
  x_messages :: "message list"

text \<open>One constructor for each \<open>await\<close> of the component, with what its continuation holds.\<close>

datatype task =
    CreatingSession uid jsstring "message list"
  | CreatingChat uid
  | Deleting uid docid
  | UserTurn exchange
  | Analysis exchange
  | BotTurn exchange jsstring "(jsstring \<times> jsstring) list option"
  | TitleUpdate exchange
  | ErrorTurn exchange jsstring

subsection \<open>State\<close>

text \<open>
  The component's state variables, the store (session documents and the ordered
  message collection of each session, keyed by user and session, with its
  registered message listeners), the cleanup of the messages effect and the
  dependencies of its last run, the suspended calls and the requests sent to the
  analysis service so far.
\<close>

record app =
  user :: "uid option"
  currentSessionId :: "docid option"
  messages :: "message list"
  userInput :: jsstring
  isLoading :: bool
  error :: jsstring
  sessionsDb :: "uid \<times> docid \<Rightarrow> session option"
  messagesDb :: "uid \<times> docid \<Rightarrow> message list"
  nextId :: docid
  clock :: int
  listeners :: "(nat \<times> uid \<times> docid) list"
  nextListener :: nat
  unsubscribe :: "nat option"
  effectDeps :: "docid option \<times> uid option"
  tasks :: "task list"
  requests :: "request list"

definition initial :: app where
  "initial = \<lparr>user = None, currentSessionId = None, messages = [], userInput = [],
     isLoading = False, error = [], sessionsDb = (\<lambda>_. None), messagesDb = (\<lambda>_. []),
     nextId = 0, clock = 1, listeners = [], nextListener = 0, unsubscribe = None,
     effectDeps = (None, None), tasks = [], requests = []\<rparr>"

subsection \<open>Store writes\<close>

text \<open>\<open>addDoc\<close> on the sessions collection, acknowledged: a new id, a server timestamp.\<close>

definition addSession :: "uid \<Rightarrow> jsstring \<Rightarrow> app \<Rightarrow> app" where
  "addSession u t st =
     st\<lparr>sessionsDb := (sessionsDb st)((u, nextId st) :=
            Some \<lparr>session_id = nextId st, title = t, createdAt = Some (clock st), isPinned = False\<rparr>),
        nextId := nextId st + 1, clock := clock st + 1\<rparr>"

text \<open>\<open>addDoc\<close> on a messages collection, acknowledged: the document is the newest.\<close>

definition addMessage :: "exchange \<Rightarrow> message \<Rightarrow> app \<Rightarrow> app" where
  "addMessage x m st =
     st\<lparr>messagesDb := (messagesDb st)((x_user x, x_sessionId x) :=
            messagesDb st (x_user x, x_sessionId x) @ [m]),
        clock := clock st + 1\<rparr>"

subsection \<open>\<open>getAnalysis\<close>\<close>

definition userTurn :: "jsstring \<Rightarrow> message" where
  "userTurn queryText = \<lparr>sender = User, msg_text = queryText, sources = None\<rparr>"

definition botTurn :: "jsstring \<Rightarrow> (jsstring \<times> jsstring) list option \<Rightarrow> message" where
  "botTurn cleanAnswer srcs = \<lparr>sender = Bot, msg_text = cleanAnswer, sources = srcs\<rparr>"

definition errorTurn :: "jsstring \<Rightarrow> message" where
  "errorTurn errorMsg = \<lparr>sender = Bot, msg_text = errorMsg, sources = None\<rparr>"

text \<open>
  The synchronous head of \<open>getAnalysis\<close>, up to its first \<open>await\<close>. \<open>u\<close> and
  \<open>msgs\<close> are \<open>user\<close> and \<open>messages\<close> of the closure.
\<close>

definition getAnalysis :: "uid option \<Rightarrow> message list \<Rightarrow> jsstring \<Rightarrow> docid \<Rightarrow> bool \<Rightarrow> app \<Rightarrow> app" where
  "getAnalysis u msgs queryText sessionId isNewSession st =
     (case u of
        None \<Rightarrow> st
      | Some uid' \<Rightarrow>
          st\<lparr>isLoading := True, error := [],
             tasks := tasks st @
               [UserTurn \<lparr>x_user = uid', x_sessionId = sessionId, x_queryText = queryText,
                          x_isNewSession = isNewSession, x_messages = msgs\<rparr>]\<rparr>)"

text \<open>The \<open>catch\<close> block up to its \<open>await\<close>, and the \<open>finally\<close> block.\<close>

definition catchBlock :: "exchange \<Rightarrow> jsstring \<Rightarrow> app \<Rightarrow> app" where
  "catchBlock x m st =
     (let errorMsg = js ''Sorry, the analysis failed: '' @ m
      in st\<lparr>error := errorMsg, tasks := tasks st @ [ErrorTurn x errorMsg]\<rparr>)"

definition finallyBlock :: "app \<Rightarrow> app" where
  "finallyBlock st = st\<lparr>isLoading := False\<rparr>"

text \<open>Decimal digits of a status code, as the template literal prints it.\<close>

fun decimal :: "nat \<Rightarrow> jsstring" where
  "decimal n =
     (if n < 10 then [0x30 + of_nat n]
      else decimal (n div 10) @ [0x30 + of_nat (n mod 10)])"

declare decimal.simps [simp del]

text \<open>
  The message of the error thrown for a response that is not ok:
  \<open>errorData.detail || `An API error occurred: ${response.status}`\<close>, where
  \<open>errorData\<close> is the parsed body, or \<open>{detail: response.statusText}\<close> when the
  body does not parse.
\<close>

definition apiErrorMessage :: "nat \<Rightarrow> jsstring \<Rightarrow> errbody \<Rightarrow> jsstring" where
  "apiErrorMessage status statusText body =
     (let detail = (case body of Unparsable \<Rightarrow> Some statusText | Parsed d \<Rightarrow> d)
      in case detail of
           None \<Rightarrow> js ''An API error occurred: '' @ decimal status
         | Some d \<Rightarrow> if d = [] then js ''An API error occurred: '' @ decimal status else d)"

definition historyForBackend :: "message list \<Rightarrow> (sender \<times> jsstring) list" where
  "historyForBackend msgs = map (\<lambda>msg. (sender msg, msg_text msg)) msgs"

subsection \<open>Continuations\<close>

text \<open>
  What a suspended call does when its promise settles, up to its next \<open>await\<close> or
  its end. \<open>None\<close>: the promise cannot settle that way (a store write has no
  response, \<open>fetch\<close> is not acknowledged, the store does not acknowledge an update
  of a document that does not exist).
\<close>

fun resume :: "runtime \<Rightarrow> task \<Rightarrow> outcome \<Rightarrow> app \<Rightarrow> app option" where
  "resume rt (CreatingSession u input msgs) Fulfilled st =
     Some ((getAnalysis (Some u) msgs input (nextId st) True
              ((addSession u (generateSessionTitle rt input) st)
                 \<lparr>currentSessionId := Some (nextId st)\<rparr>))
             \<lparr>userInput := []\<rparr>)"
| "resume rt (CreatingSession u input msgs) (Rejected m) st =
     Some (st\<lparr>error := js ''Failed to create new chat session''\<rparr>)"
| "resume rt (CreatingChat u) Fulfilled st =
     Some ((addSession u (js ''New Analysis'') st)
             \<lparr>currentSessionId := Some (nextId st), messages := [], userInput := [], error := []\<rparr>)"
| "resume rt (CreatingChat u) (Rejected m) st =
     Some (st\<lparr>error := js ''Failed to create new chat session''\<rparr>)"
| "resume rt (Deleting u sessionIdToDelete) Fulfilled st =
     Some (st\<lparr>sessionsDb := (sessionsDb st)((u, sessionIdToDelete) := None)\<rparr>)"
| "resume rt (Deleting u sessionIdToDelete) (Rejected m) st =
     Some (st\<lparr>error := js ''Failed to delete chat session''\<rparr>)"
| "resume rt (UserTurn x) Fulfilled st =
     Some (let st1 = addMessage x (userTurn (x_queryText x)) st
           in st1\<lparr>requests := requests st1 @
                     [\<lparr>query = x_queryText x, chat_history = historyForBackend (x_messages x)\<rparr>],
                   tasks := tasks st1 @ [Analysis x]\<rparr>)"
| "resume rt (UserTurn x) (Rejected m) st = Some (catchBlock x m st)"
| "resume rt (Analysis x) (Rejected m) st = Some (catchBlock x m st)"
| "resume rt (Analysis x) (Replied (NotOk status statusText body)) st =
     Some (catchBlock x (apiErrorMessage status statusText body) st)"
| "resume rt (Analysis x) (Replied (OkMalformed m)) st = Some (catchBlock x m st)"
| "resume rt (Analysis x) (Replied (OkJson answer srcs)) st =
     Some (st\<lparr>tasks := tasks st @ [BotTurn x (removeMarkdown rt answer) srcs]\<rparr>)"
| "resume rt (BotTurn x cleanAnswer srcs) Fulfilled st =
     Some (let st1 = addMessage x (botTurn cleanAnswer srcs) st
           in if x_isNewSession x \<or> x_messages x = []
              then st1\<lparr>tasks := tasks st1 @ [TitleUpdate x]\<rparr>
              else finallyBlock st1)"
| "resume rt (BotTurn x cleanAnswer srcs) (Rejected m) st = Some (catchBlock x m st)"
| "resume rt (TitleUpdate x) Fulfilled st =
     (case sessionsDb st (x_user x, x_sessionId x) of
        None \<Rightarrow> None
      | Some s \<Rightarrow>
          Some (finallyBlock
                  (st\<lparr>sessionsDb := (sessionsDb st)((x_user x, x_sessionId x) :=
                         Some (s\<lparr>title := generateSessionTitle rt (x_queryText x)\<rparr>))\<rparr>)))"
| "resume rt (TitleUpdate x) (Rejected m) st = Some (catchBlock x m st)"
| "resume rt (ErrorTurn x errorMsg) Fulfilled st =
     Some (finallyBlock (addMessage x (errorTurn errorMsg) st))"
| "resume rt (ErrorTurn x errorMsg) (Rejected m) st = Some (finallyBlock st)"
| "resume rt _ _ st = None"

subsection \<open>Event handlers\<close>

definition handleSubmit :: "app \<Rightarrow> app" where
  "handleSubmit st =
     (if trim (userInput st) = [] \<or> isLoading st then st
      else case currentSessionId st of
             None \<Rightarrow>
               (case user st of
                  None \<Rightarrow> st\<lparr>error := js ''Failed to create new chat session''\<rparr>
                | Some u \<Rightarrow> st\<lparr>tasks := tasks st @ [CreatingSession u (userInput st) (messages st)]\<rparr>)
           | Some activeSessionId \<Rightarrow>
               (getAnalysis (user st) (messages st) (userInput st) activeSessionId False st)
                 \<lparr>userInput := []\<rparr>)"

definition createNewSession :: "app \<Rightarrow> app" where
  "createNewSession st =
     (case user st of None \<Rightarrow> st | Some u \<Rightarrow> st\<lparr>tasks := tasks st @ [CreatingChat u]\<rparr>)"

definition deleteSession :: "docid \<Rightarrow> app \<Rightarrow> app" where
  "deleteSession sessionIdToDelete st =
     (case user st of
        None \<Rightarrow> st
      | Some u \<Rightarrow>
          (if currentSessionId st = Some sessionIdToDelete
           then st\<lparr>currentSessionId := None, messages := []\<rparr>
           else st)
            \<lparr>tasks := tasks st @ [Deleting u sessionIdToDelete]\<rparr>)"

subsection \<open>The messages effect\<close>

text \<open>
  The effect with dependencies \<open>[currentSessionId, user]\<close>: its body, the cleanup
  it returned on its last run, and its re-run when a dependency differs from the
  one of its last run (cleanup first, then the body). \<open>onSnapshot\<close> registers a
  listener with the store and \<open>unsubscribe\<close> removes the registration.
\<close>

definition messagesEffect :: "app \<Rightarrow> app" where
  "messagesEffect st =
     (case (currentSessionId st, user st) of
        (Some sessionId, Some u) \<Rightarrow>
          st\<lparr>listeners := listeners st @ [(nextListener st, u, sessionId)],
             unsubscribe := Some (nextListener st),
             nextListener := nextListener st + 1\<rparr>
      | _ \<Rightarrow> st\<lparr>messages := [], unsubscribe := None\<rparr>)"

definition cleanup :: "app \<Rightarrow> app" where
  "cleanup st =
     (case unsubscribe st of
        None \<Rightarrow> st
      | Some h \<Rightarrow> st\<lparr>listeners := filter (\<lambda>l. fst l \<noteq> h) (listeners st)\<rparr>)"

definition flushEffects :: "app \<Rightarrow> app" where
  "flushEffects st =
     (if (currentSessionId st, user st) = effectDeps st then st
      else (messagesEffect (cleanup st))\<lparr>effectDeps := (currentSessionId st, user st)\<rparr>)"


subsection \<open>Events\<close>

text \<open>
  The events the component reacts to: typing, submitting the form, clicking a
  session, the new-chat and delete buttons, an identity change, a call of the
  snapshot callback of a message listener, the settling of the \<open>i\<close>-th pending
  promise, and the run of the effects of the last render. A handler and the
  render it causes are one step; the effects of that render run in a later step
  of their own, so other events can come between a change of the selected
  session and the cleanup that follows it. The snapshot callback sets the
  displayed list to the documents it is given, whichever listener it belongs to.
\<close>

datatype event =
    Type jsstring
  | Submit
  | Select docid
  | NewChat
  | Delete docid
  | AuthChanged "uid option"
  | Snapshot nat "message list"
  | Settle nat outcome
  | Effects

definition settle :: "runtime \<Rightarrow> nat \<Rightarrow> outcome \<Rightarrow> app \<Rightarrow> app" where
  "settle rt i out st =
     (if i < length (tasks st)
      then (case resume rt (tasks st ! i) out
                   (st\<lparr>tasks := take i (tasks st) @ drop (Suc i) (tasks st)\<rparr>) of
              None \<Rightarrow> st
            | Some st' \<Rightarrow> st')
      else st)"

definition step :: "runtime \<Rightarrow> event \<Rightarrow> app \<Rightarrow> app" where
  "step rt ev st =
     (case ev of
        Type s \<Rightarrow> st\<lparr>userInput := s, error := []\<rparr>
      | Submit \<Rightarrow> handleSubmit st
      | Select sessionId \<Rightarrow> st\<lparr>currentSessionId := Some sessionId\<rparr>
      | NewChat \<Rightarrow> createNewSession st
      | Delete sessionId \<Rightarrow> deleteSession sessionId st
      | AuthChanged u \<Rightarrow> st\<lparr>user := u, currentSessionId := None, messages := []\<rparr>
      | Snapshot h docs \<Rightarrow> st\<lparr>messages := docs\<rparr>
      | Settle i out \<Rightarrow> settle rt i out st
      | Effects \<Rightarrow> flushEffects st)"

fun run :: "runtime \<Rightarrow> event list \<Rightarrow> app \<Rightarrow> app" where
  "run rt [] st = st"
| "run rt (ev # evs) st = run rt evs (step rt ev st)"

text \<open>The number of \<open>getAnalysis\<close> calls suspended for a session.\<close>

fun exchangeOf :: "task \<Rightarrow> exchange option" where
  "exchangeOf (UserTurn x) = Some x"
| "exchangeOf (Analysis x) = Some x"
| "exchangeOf (BotTurn x a srcs) = Some x"
| "exchangeOf (TitleUpdate x) = Some x"
| "exchangeOf (ErrorTurn x m) = Some x"
| "exchangeOf _ = None"

definition inFlight :: "uid \<Rightarrow> docid \<Rightarrow> app \<Rightarrow> nat" where
  "inFlight u sessionId st =
     length (filter (\<lambda>t. case exchangeOf t of
                            None \<Rightarrow> False
                          | Some x \<Rightarrow> x_user x = u \<and> x_sessionId x = sessionId)
               (tasks st))"

subsection \<open>Listener bookkeeping\<close>



section \<open>Properties of the title generator\<close>

lemma trim_length: "length (trim s) \<le> length s"
proof -
  have "length (trim s) \<le> length (dropWhile isWhiteSpace s)"
    using length_dropWhile_le [of isWhiteSpace "rev (dropWhile isWhiteSpace s)"]
    by (simp add: trim_def)
  also have "\<dots> \<le> length s"
    by (rule length_dropWhile_le)
  finally show ?thesis .
qed

lemma trim_unchanged:
  assumes "s \<noteq> []" "\<not> isWhiteSpace (hd s)" "\<not> isWhiteSpace (last s)"
  shows "trim s = s"
proof -
  from assms have front: "dropWhile isWhiteSpace s = s"
    by (cases s) simp_all
  from assms have "rev s \<noteq> []" "\<not> isWhiteSpace (hd (rev s))"
    by (simp_all add: hd_rev)
  then have "dropWhile isWhiteSpace (rev s) = rev s"
    by (cases "rev s") simp_all
  with front show ?thesis
    by (simp add: trim_def)
qed

lemma cleanedSegment_blank: "trim s = [] \<Longrightarrow> cleanedSegment s = []"
  by (simp add: cleanedSegment_def stripLead_def leadWords_def js_def)

lemmas title_defs =
  generateSessionTitle_def cleanedSegment_def trim_def isWhiteSpace_def js_def
  isTerminator_def stripLead_def leadWords_def toUpperCase1_def

text \<open>
  C6 (a title is never empty). The generator returns the empty string for the
  input \<open>?\<close>: the trimmed input is not empty, its first piece is, so the whole
  input is taken, and removing the question mark leaves nothing. A submission of
  \<open>?\<close> with no session selected creates a session with that empty title.
\<close>

theorem title_empty_for_question_mark:
  "generateSessionTitle rt (js ''?'') = [] \<and>
   map_option title
     (sessionsDb (run rt [AuthChanged (Some 1), Type (js ''?''), Submit, Settle 0 Fulfilled] initial)
        (1, 0)) = Some []"
  by (simp add: title_defs step_def handleSubmit_def settle_def initial_def
      addSession_def getAnalysis_def)

text \<open>
  C7. The generator returns the placeholder for the empty input. For
  \<open>What is NATO expansion?\<close> it strips the lead word \<open>What\<close> and the question
  mark and capitalises the rest: the title is \<open>Is NATO expansion\<close>, not
  \<open>NATO expansion\<close>.
\<close>

theorem title_examples:
  "generateSessionTitle rt (js []) = js ''New Analysis'' \<and>
   generateSessionTitle rt (js ''What is NATO expansion?'') = js ''Is NATO expansion''"
  by (simp add: title_defs)

theorem title_nato_counterexample:
  "generateSessionTitle asciiRuntime (js ''What is NATO expansion?'') \<noteq> js ''NATO expansion''"
  by (simp add: title_defs)

text \<open>
  C8. When the cleaned first segment is longer than 40 units, the title is its
  first 37 units, trimmed of white space at both ends, followed by three dots. It
  is at most 40 units long, and it is exactly the 37 units and the dots, 40 units
  in all, when the first and the 37th unit are not white space.
\<close>

theorem long_title_truncated:
  assumes "40 < length (cleanedSegment s)"
  shows "generateSessionTitle rt s = trim (take 37 (cleanedSegment s)) @ js ''...'' \<and>
         length (generateSessionTitle rt s) \<le> 40 \<and>
         (\<not> isWhiteSpace (cleanedSegment s ! 0) \<and> \<not> isWhiteSpace (cleanedSegment s ! 36) \<longrightarrow>
            generateSessionTitle rt s = take 37 (cleanedSegment s) @ js ''...'' \<and>
            length (generateSessionTitle rt s) = 40)"
proof -
  let ?seg = "cleanedSegment s"
  from assms have nonblank: "trim s \<noteq> []"
    using cleanedSegment_blank [of s] by auto
  with assms have title: "generateSessionTitle rt s = trim (take 37 ?seg) @ js ''...''"
    by (simp add: generateSessionTitle_def Let_def)
  have "length (trim (take 37 ?seg)) \<le> length (take 37 ?seg)"
    by (rule trim_length)
  with assms have bound: "length (generateSessionTitle rt s) \<le> 40"
    by (simp add: title js_def)
  have exact: "generateSessionTitle rt s = take 37 ?seg @ js ''...'' \<and>
               length (generateSessionTitle rt s) = 40"
    if ends: "\<not> isWhiteSpace (?seg ! 0)" "\<not> isWhiteSpace (?seg ! 36)"
  proof -
    from assms have ne: "take 37 ?seg \<noteq> []"
      by auto
    from ne have "hd (take 37 ?seg) = ?seg ! 0"
      by (simp add: hd_conv_nth)
    moreover from assms ne have "last (take 37 ?seg) = ?seg ! 36"
      by (simp add: last_conv_nth)
    ultimately have "trim (take 37 ?seg) = take 37 ?seg"
      using ne ends by (simp add: trim_unchanged)
    with assms show ?thesis
      by (simp add: title js_def)
  qed
  from title bound exact show ?thesis
    by blast
qed

theorem long_title_truncated_witness:
  "generateSessionTitle asciiRuntime
     (js ''Assess the impact of sanctions on the Russian energy exports'') =
   js ''Assess the impact of sanctions on the...''"
proof -
  let ?s = "js ''Assess the impact of sanctions on the Russian energy exports''"
  have seg: "cleanedSegment ?s = ?s"
    by (simp add: title_defs)
  have len: "40 < length (cleanedSegment ?s)"
    by (simp add: seg) (simp add: js_def)
  have ends: "\<not> isWhiteSpace (cleanedSegment ?s ! 0) \<and> \<not> isWhiteSpace (cleanedSegment ?s ! 36)"
    by (simp add: seg) (simp add: js_def isWhiteSpace_def)
  from long_title_truncated [OF len, of asciiRuntime] ends
  have "generateSessionTitle asciiRuntime ?s = take 37 (cleanedSegment ?s) @ js ''...''"
    by blast
  then show ?thesis
    by (simp add: seg) (simp add: js_def)
qed

theorem long_title_counterexample:
  "length (js ''Compare the sanctions regimes of the EU and the US from 2014'') = 60 \<and>
   40 < length (cleanedSegment (js ''Compare the sanctions regimes of the EU and the US from 2014'')) \<and>
   generateSessionTitle asciiRuntime (js ''Compare the sanctions regimes of the EU and the US from 2014'')
     = js ''Compare the sanctions regimes of the...'' \<and>
   length (generateSessionTitle asciiRuntime
             (js ''Compare the sanctions regimes of the EU and the US from 2014'')) = 39"
  by (simp add: title_defs)

section \<open>Properties of the session ordering\<close>

lemma compareSessions_total: "compareSessions a b \<le> 0 \<or> compareSessions b a \<le> 0"
  by (auto simp: compareSessions_def)

lemma compareSessions_trans:
  "compareSessions a b \<le> 0 \<Longrightarrow> compareSessions b c \<le> 0 \<Longrightarrow> compareSessions a c \<le> 0"
  by (auto simp: compareSessions_def split: if_splits)

lemma compareSessions_order:
  "compareSessions a b \<le> 0 \<Longrightarrow>
     (isPinned b \<longrightarrow> isPinned a) \<and> (isPinned a = isPinned b \<longrightarrow> millis b \<le> millis a)"
  by (auto simp: compareSessions_def split: if_splits)

lemma mset_insertBy: "mset (insertBy cmp x xs) = add_mset x (mset xs)"
  by (induction xs) auto

lemma set_insertBy: "set (insertBy cmp x xs) = insert x (set xs)"
  by (induction xs) auto

lemma mset_sortBy: "mset (sortBy cmp xs) = mset xs"
  by (induction xs) (auto simp: mset_insertBy)

lemma sorted_insertBy:
  assumes "sorted_wrt (\<lambda>a b. compareSessions a b \<le> 0) xs"
  shows "sorted_wrt (\<lambda>a b. compareSessions a b \<le> 0) (insertBy compareSessions x xs)"
  using assms
proof (induction xs)
  case Nil
  then show ?case by simp
next
  case (Cons y ys)
  show ?case
  proof (cases "compareSessions x y \<le> 0")
    case True
    with Cons.prems show ?thesis
      by (auto intro: compareSessions_trans)
  next
    case False
    then have "compareSessions y x \<le> 0"
      using compareSessions_total [of x y] by simp
    with False Cons show ?thesis
      by (auto simp: set_insertBy)
  qed
qed

lemma sorted_sortBy: "sorted_wrt (\<lambda>a b. compareSessions a b \<le> 0) (sortBy compareSessions xs)"
  by (induction xs) (auto intro: sorted_insertBy)

lemma sortBy_sorted:
  "sorted_wrt (\<lambda>a b. compareSessions a b \<le> 0) xs \<Longrightarrow> sortBy compareSessions xs = xs"
proof (induction xs)
  case Nil
  then show ?case by simp
next
  case (Cons x xs)
  then have "sortBy compareSessions (x # xs) = insertBy compareSessions x xs"
    by simp
  also from Cons.prems have "\<dots> = x # xs"
    by (cases xs) auto
  finally show ?case .
qed

text \<open>
  C9. The ordering is a rearrangement of the sessions in which no unpinned session
  comes before a pinned one, sessions of the same group come by descending
  creation time (a pending timestamp counting as 0, so that no session created
  after the epoch comes behind a pending one of its group), and ordering the
  result again changes nothing.
\<close>

theorem sortedSessions_policy:
  "mset (sortedSessions xs) = mset xs \<and>
   sorted_wrt (\<lambda>a b. (isPinned b \<longrightarrow> isPinned a) \<and>
                      (isPinned a = isPinned b \<longrightarrow> millis b \<le> millis a))
     (sortedSessions xs) \<and>
   sorted_wrt (\<lambda>a b. isPinned a = isPinned b \<and> createdAt a = None \<longrightarrow>
                      (case createdAt b of None \<Rightarrow> True | Some t \<Rightarrow> t \<le> 0))
     (sortedSessions xs) \<and>
   sortedSessions (sortedSessions xs) = sortedSessions xs"
proof -
  have sorted: "sorted_wrt (\<lambda>a b. compareSessions a b \<le> 0) (sortedSessions xs)"
    unfolding sortedSessions_def by (rule sorted_sortBy)
  have order: "sorted_wrt (\<lambda>a b. (isPinned b \<longrightarrow> isPinned a) \<and>
                      (isPinned a = isPinned b \<longrightarrow> millis b \<le> millis a)) (sortedSessions xs)"
    by (rule sorted_wrt_mono_rel [OF _ sorted]) (rule compareSessions_order)
  have pending: "sorted_wrt (\<lambda>a b. isPinned a = isPinned b \<and> createdAt a = None \<longrightarrow>
                      (case createdAt b of None \<Rightarrow> True | Some t \<Rightarrow> t \<le> 0)) (sortedSessions xs)"
    by (rule sorted_wrt_mono_rel [OF _ order]) (auto simp: millis_def split: option.splits)
  have again: "sortedSessions (sortedSessions xs) = sortedSessions xs"
    using sorted by (simp add: sortedSessions_def sortBy_sorted)
  show ?thesis
    using order pending again by (simp add: sortedSessions_def mset_sortBy)
qed

theorem sortedSessions_policy_witness:
  "sortedSessions
     [\<lparr>session_id = 1, title = js ''a'', createdAt = Some 100, isPinned = False\<rparr>,
      \<lparr>session_id = 2, title = js ''b'', createdAt = None, isPinned = False\<rparr>,
      \<lparr>session_id = 3, title = js ''c'', createdAt = Some 50, isPinned = True\<rparr>,
      \<lparr>session_id = 4, title = js ''d'', createdAt = Some 200, isPinned = False\<rparr>,
      \<lparr>session_id = 5, title = js ''e'', createdAt = None, isPinned = True\<rparr>] =
     [\<lparr>session_id = 3, title = js ''c'', createdAt = Some 50, isPinned = True\<rparr>,
      \<lparr>session_id = 5, title = js ''e'', createdAt = None, isPinned = True\<rparr>,
      \<lparr>session_id = 4, title = js ''d'', createdAt = Some 200, isPinned = False\<rparr>,
      \<lparr>session_id = 1, title = js ''a'', createdAt = Some 100, isPinned = False\<rparr>,
      \<lparr>session_id = 2, title = js ''b'', createdAt = None, isPinned = False\<rparr>] \<and>
   sortedSessions (sortedSessions
     [\<lparr>session_id = 1, title = js ''a'', createdAt = Some 100, isPinned = False\<rparr>,
      \<lparr>session_id = 2, title = js ''b'', createdAt = None, isPinned = False\<rparr>,
      \<lparr>session_id = 3, title = js ''c'', createdAt = Some 50, isPinned = True\<rparr>,
      \<lparr>session_id = 4, title = js ''d'', createdAt = Some 200, isPinned = False\<rparr>,
      \<lparr>session_id = 5, title = js ''e'', createdAt = None, isPinned = True\<rparr>]) =
     [\<lparr>session_id = 3, title = js ''c'', createdAt = Some 50, isPinned = True\<rparr>,
      \<lparr>session_id = 5, title = js ''e'', createdAt = None, isPinned = True\<rparr>,
      \<lparr>session_id = 4, title = js ''d'', createdAt = Some 200, isPinned = False\<rparr>,
      \<lparr>session_id = 1, title = js ''a'', createdAt = Some 100, isPinned = False\<rparr>,
      \<lparr>session_id = 2, title = js ''b'', createdAt = None, isPinned = False\<rparr>]"
proof -
  let ?xs = "[\<lparr>session_id = 1, title = js ''a'', createdAt = Some 100, isPinned = False\<rparr>,
      \<lparr>session_id = 2, title = js ''b'', createdAt = None, isPinned = False\<rparr>,
      \<lparr>session_id = 3, title = js ''c'', createdAt = Some 50, isPinned = True\<rparr>,
      \<lparr>session_id = 4, title = js ''d'', createdAt = Some 200, isPinned = False\<rparr>,
      \<lparr>session_id = 5, title = js ''e'', createdAt = None, isPinned = True\<rparr>]"
  have first: "sortedSessions ?xs =
     [\<lparr>session_id = 3, title = js ''c'', createdAt = Some 50, isPinned = True\<rparr>,
      \<lparr>session_id = 5, title = js ''e'', createdAt = None, isPinned = True\<rparr>,
      \<lparr>session_id = 4, title = js ''d'', createdAt = Some 200, isPinned = False\<rparr>,
      \<lparr>session_id = 1, title = js ''a'', createdAt = Some 100, isPinned = False\<rparr>,
      \<lparr>session_id = 2, title = js ''b'', createdAt = None, isPinned = False\<rparr>]"
    by (simp add: sortedSessions_def compareSessions_def millis_def)
  from sortedSessions_policy [of ?xs]
  have "sortedSessions (sortedSessions ?xs) = sortedSessions ?xs"
    by blast
  with first show ?thesis
    by simp
qed

section \<open>Properties of the messages subscription\<close>

lemmas exchange_defs =
  getAnalysis_def catchBlock_def finallyBlock_def addMessage_def addSession_def

lemmas run_defs = step_def settle_def handleSubmit_def

lemmas eval_defs =
  step_def flushEffects_def messagesEffect_def cleanup_def settle_def handleSubmit_def














section \<open>Properties of an exchange\<close>

lemma resume_request:
  assumes "resume rt t out st = Some st'" "requests st' \<noteq> requests st"
  shows "\<exists>x. t = UserTurn x \<and> out = Fulfilled \<and>
           messagesDb st' (x_user x, x_sessionId x) =
             messagesDb st (x_user x, x_sessionId x) @ [userTurn (x_queryText x)] \<and>
           requests st' = requests st @
             [\<lparr>query = x_queryText x, chat_history = historyForBackend (x_messages x)\<rparr>]"
  using assms
  by (cases "(rt, t, out, st)" rule: resume.cases)
     (auto simp: exchange_defs Let_def split: option.splits if_splits)

lemma step_request:
  assumes "requests (step rt ev st) \<noteq> requests st"
  shows "\<exists>i x. ev = Settle i Fulfilled \<and> i < length (tasks st) \<and> tasks st ! i = UserTurn x \<and>
           messagesDb (step rt ev st) (x_user x, x_sessionId x) =
             messagesDb st (x_user x, x_sessionId x) @ [userTurn (x_queryText x)] \<and>
           requests (step rt ev st) = requests st @
             [\<lparr>query = x_queryText x, chat_history = historyForBackend (x_messages x)\<rparr>]"
proof (cases ev)
  case (Settle i out)
  with assms have i: "i < length (tasks st)"
    by (auto simp: step_def settle_def split: if_splits)
  let ?st = "st\<lparr>tasks := take i (tasks st) @ drop (Suc i) (tasks st)\<rparr>"
  from assms Settle i obtain st' where st': "resume rt (tasks st ! i) out ?st = Some st'"
    and eq: "step rt ev st = st'"
    by (auto simp: step_def settle_def split: option.splits)
  from assms eq have "requests st' \<noteq> requests ?st"
    by simp
  from resume_request [OF st' this] i eq Settle show ?thesis
    by auto
qed (use assms in \<open>auto simp: step_def flushEffects_def messagesEffect_def cleanup_def
      handleSubmit_def createNewSession_def deleteSession_def getAnalysis_def
      split: option.splits if_splits\<close>)

text \<open>
  C2. A request goes to the analysis service only in the step in which the write
  of a user turn is acknowledged, and the store then holds that turn as the newest
  message of the session. When the write of the user turn is rejected, no request
  is sent and nothing is stored; the error is reported in \<open>error\<close> and the call
  goes on to store the failure turn, after which it ends, without a request, and
  the loading flag is cleared.
\<close>

theorem user_turn_persisted_before_request:
  "(requests (step rt ev st) \<noteq> requests st \<longrightarrow>
      (\<exists>i x. ev = Settle i Fulfilled \<and> i < length (tasks st) \<and> tasks st ! i = UserTurn x \<and>
         messagesDb (step rt ev st) (x_user x, x_sessionId x) =
           messagesDb st (x_user x, x_sessionId x) @ [userTurn (x_queryText x)] \<and>
         requests (step rt ev st) = requests st @
           [\<lparr>query = x_queryText x, chat_history = historyForBackend (x_messages x)\<rparr>])) \<and>
   (i < length (tasks st) \<and> tasks st ! i = UserTurn x \<longrightarrow>
      requests (step rt (Settle i (Rejected m)) st) = requests st \<and>
      messagesDb (step rt (Settle i (Rejected m)) st) = messagesDb st \<and>
      error (step rt (Settle i (Rejected m)) st) = js ''Sorry, the analysis failed: '' @ m \<and>
      tasks (step rt (Settle i (Rejected m)) st) =
        take i (tasks st) @ drop (Suc i) (tasks st) @
          [ErrorTurn x (js ''Sorry, the analysis failed: '' @ m)]) \<and>
   (j < length (tasks st) \<and> tasks st ! j = ErrorTurn y e \<and>
    (out = Fulfilled \<or> out = Rejected m') \<longrightarrow>
      requests (step rt (Settle j out) st) = requests st \<and>
      \<not> isLoading (step rt (Settle j out) st) \<and>
      tasks (step rt (Settle j out) st) = take j (tasks st) @ drop (Suc j) (tasks st))"
proof (intro conjI impI)
  assume "requests (step rt ev st) \<noteq> requests st"
  from step_request [OF this]
  show "\<exists>i x. ev = Settle i Fulfilled \<and> i < length (tasks st) \<and> tasks st ! i = UserTurn x \<and>
         messagesDb (step rt ev st) (x_user x, x_sessionId x) =
           messagesDb st (x_user x, x_sessionId x) @ [userTurn (x_queryText x)] \<and>
         requests (step rt ev st) = requests st @
           [\<lparr>query = x_queryText x, chat_history = historyForBackend (x_messages x)\<rparr>]" .
qed (auto simp: run_defs catchBlock_def finallyBlock_def addMessage_def Let_def)

theorem user_turn_persisted_before_request_witness:
  "requests (run asciiRuntime
     [AuthChanged (Some 2), Select 5, Type (js ''q''), Submit, Settle 0 Fulfilled] initial) =
     [\<lparr>query = js ''q'', chat_history = []\<rparr>] \<and>
   messagesDb (run asciiRuntime
     [AuthChanged (Some 2), Select 5, Type (js ''q''), Submit, Settle 0 Fulfilled] initial) (2, 5) =
     [userTurn (js ''q'')] \<and>
   requests (run asciiRuntime
     [AuthChanged (Some 2), Select 5, Type (js ''q''), Submit, Settle 0 (Rejected (js ''offline'')),
      Settle 0 Fulfilled] initial) = [] \<and>
   error (run asciiRuntime
     [AuthChanged (Some 2), Select 5, Type (js ''q''), Submit, Settle 0 (Rejected (js ''offline''))]
     initial) = js ''Sorry, the analysis failed: offline''"
proof -
  let ?x = "\<lparr>x_user = 2, x_sessionId = 5, x_queryText = js ''q'', x_isNewSession = False,
             x_messages = []\<rparr>"
  let ?e = "js ''Sorry, the analysis failed: '' @ js ''offline''"
  define st where
    "st = run asciiRuntime [AuthChanged (Some 2), Select 5, Type (js ''q''), Submit] initial"
  define st' where "st' = step asciiRuntime (Settle 0 (Rejected (js ''offline''))) st"
  have st: "tasks st = [UserTurn ?x]" "requests st = []" "messagesDb st (2, 5) = []"
    unfolding st_def
    by (simp_all add: eval_defs exchange_defs initial_def trim_def isWhiteSpace_def js_def)
  then have pending: "0 < length (tasks st) \<and> tasks st ! 0 = UserTurn ?x"
    by simp
  have sent: "requests (step asciiRuntime (Settle 0 Fulfilled) st) \<noteq> requests st"
    by (simp add: st run_defs exchange_defs)
  from user_turn_persisted_before_request
         [of asciiRuntime "Settle 0 Fulfilled" st 0 ?x "js ''offline''"] sent pending
  have ok: "requests (step asciiRuntime (Settle 0 Fulfilled) st) =
              [\<lparr>query = js ''q'', chat_history = []\<rparr>] \<and>
            messagesDb (step asciiRuntime (Settle 0 Fulfilled) st) (2, 5) = [userTurn (js ''q'')]"
    and failed: "requests st' = [] \<and> error st' = ?e \<and> tasks st' = [ErrorTurn ?x ?e]"
    by (auto simp: st st'_def historyForBackend_def)
  from failed have "0 < length (tasks st') \<and> tasks st' ! 0 = ErrorTurn ?x ?e \<and>
      (Fulfilled = Fulfilled \<or> Fulfilled = Rejected [])"
    by simp
  with user_turn_persisted_before_request
         [of asciiRuntime _ st' _ _ _ 0 ?x ?e Fulfilled "[]"] failed
  have ended: "requests (step asciiRuntime (Settle 0 Fulfilled) st') = []"
    by simp
  have "js ''Sorry, the analysis failed: '' @ js ''offline'' =
        js ''Sorry, the analysis failed: offline''"
    by (simp add: js_def)
  with ok failed ended show ?thesis
    by (simp add: st_def st'_def)
qed

text \<open>
  C3. A signed-in user submits a non-blank text while nothing is pending, and every
  write and the analysis succeed. If the selected session has no messages (in the
  store and on display), or if no session is selected and one is created for the
  submission, the session afterwards holds exactly the user turn followed by the
  assistant turn, and its title is the title generated from the submitted text.
\<close>

theorem first_exchange:
  assumes "user st = Some u" "tasks st = []" "\<not> isLoading st" "trim (userInput st) \<noteq> []"
  shows "(currentSessionId st = Some sessionId \<and> messages st = [] \<and>
          messagesDb st (u, sessionId) = [] \<and> sessionsDb st (u, sessionId) = Some s \<longrightarrow>
            (let st' = run rt [Submit, Settle 0 Fulfilled, Settle 0 (Replied (OkJson answer srcs)),
                               Settle 0 Fulfilled, Settle 0 Fulfilled] st
             in messagesDb st' (u, sessionId) =
                  [userTurn (userInput st), botTurn (removeMarkdown rt answer) srcs] \<and>
                sessionsDb st' (u, sessionId) =
                  Some (s\<lparr>title := generateSessionTitle rt (userInput st)\<rparr>) \<and>
                tasks st' = [] \<and> \<not> isLoading st')) \<and>
         (currentSessionId st = None \<and> messagesDb st (u, nextId st) = [] \<longrightarrow>
            (let st' = run rt [Submit, Settle 0 Fulfilled, Settle 0 Fulfilled,
                               Settle 0 (Replied (OkJson answer srcs)),
                               Settle 0 Fulfilled, Settle 0 Fulfilled] st
             in messagesDb st' (u, nextId st) =
                  [userTurn (userInput st), botTurn (removeMarkdown rt answer) srcs] \<and>
                sessionsDb st' (u, nextId st) =
                  Some \<lparr>session_id = nextId st, title = generateSessionTitle rt (userInput st),
                         createdAt = Some (clock st), isPinned = False\<rparr> \<and>
                tasks st' = [] \<and> \<not> isLoading st'))"
  using assms
  by (auto simp: run_defs exchange_defs Let_def)

theorem first_exchange_witness:
  "messagesDb
     (run asciiRuntime
        [AuthChanged (Some 2), NewChat, Settle 0 Fulfilled, Type (js ''Why do sanctions fail?''),
         Submit, Settle 0 Fulfilled, Settle 0 (Replied (OkJson (js ''They leak.'') (Some []))),
         Settle 0 Fulfilled, Settle 0 Fulfilled] initial) (2, 0) =
     [userTurn (js ''Why do sanctions fail?''), botTurn (js ''They leak.'') (Some [])] \<and>
   map_option title
     (sessionsDb
        (run asciiRuntime
           [AuthChanged (Some 2), NewChat, Settle 0 Fulfilled, Type (js ''Why do sanctions fail?''),
            Submit, Settle 0 Fulfilled, Settle 0 (Replied (OkJson (js ''They leak.'') (Some []))),
            Settle 0 Fulfilled, Settle 0 Fulfilled] initial) (2, 0)) =
     Some (js ''Do sanctions fail'')"
proof -
  let ?s = "\<lparr>session_id = 0, title = js ''New Analysis'', createdAt = Some 1, isPinned = False\<rparr>"
  define st where
    "st = run asciiRuntime
       [AuthChanged (Some 2), NewChat, Settle 0 Fulfilled, Type (js ''Why do sanctions fail?'')]
       initial"
  have h: "user st = Some 2" "tasks st = []" "\<not> isLoading st"
      "userInput st = js ''Why do sanctions fail?''"
    and sel: "currentSessionId st = Some 0 \<and> messages st = [] \<and> messagesDb st (2, 0) = [] \<and>
              sessionsDb st (2, 0) = Some ?s"
    unfolding st_def
    by (simp_all add: eval_defs exchange_defs initial_def createNewSession_def)
  have nonblank: "trim (userInput st) \<noteq> []"
    by (simp add: h trim_def isWhiteSpace_def js_def)
  have gen: "generateSessionTitle asciiRuntime (js ''Why do sanctions fail?'') =
             js ''Do sanctions fail''"
    by (simp add: title_defs)
  have rm: "removeMarkdown asciiRuntime (js ''They leak.'') = js ''They leak.''"
    by (simp add: asciiRuntime_def)
  have whole: "run asciiRuntime
        [AuthChanged (Some 2), NewChat, Settle 0 Fulfilled, Type (js ''Why do sanctions fail?''),
         Submit, Settle 0 Fulfilled, Settle 0 (Replied (OkJson (js ''They leak.'') (Some []))),
         Settle 0 Fulfilled, Settle 0 Fulfilled] initial =
      run asciiRuntime
        [Submit, Settle 0 Fulfilled, Settle 0 (Replied (OkJson (js ''They leak.'') (Some []))),
         Settle 0 Fulfilled, Settle 0 Fulfilled] st"
    unfolding st_def by simp
  from first_exchange [OF h(1) h(2) h(3) nonblank,
      of 0 ?s asciiRuntime "js ''They leak.''" "Some []"] sel
  have "messagesDb (run asciiRuntime
                     [Submit, Settle 0 Fulfilled,
                      Settle 0 (Replied (OkJson (js ''They leak.'') (Some []))),
                      Settle 0 Fulfilled, Settle 0 Fulfilled] st) (2, 0) =
              [userTurn (js ''Why do sanctions fail?''), botTurn (js ''They leak.'') (Some [])] \<and>
        sessionsDb (run asciiRuntime
                     [Submit, Settle 0 Fulfilled,
                      Settle 0 (Replied (OkJson (js ''They leak.'') (Some []))),
                      Settle 0 Fulfilled, Settle 0 Fulfilled] st) (2, 0) =
              Some (?s\<lparr>title := js ''Do sanctions fail''\<rparr>)"
    by (simp add: Let_def h gen rm)
  then show ?thesis
    unfolding whole by simp
qed

theorem first_exchange_counterexample:
  "messagesDb
     (run asciiRuntime
        [AuthChanged (Some 2), NewChat, Settle 0 Fulfilled, Type (js ''New Analysis''),
         Submit, Settle 0 Fulfilled, Settle 0 (Replied (OkJson (js ''Which one?'') (Some []))),
         Settle 0 Fulfilled, Settle 0 Fulfilled] initial) (2, 0) =
     [userTurn (js ''New Analysis''), botTurn (js ''Which one?'') (Some [])] \<and>
   map_option title
     (sessionsDb
        (run asciiRuntime
           [AuthChanged (Some 2), NewChat, Settle 0 Fulfilled, Type (js ''New Analysis''),
            Submit, Settle 0 Fulfilled, Settle 0 (Replied (OkJson (js ''Which one?'') (Some []))),
            Settle 0 Fulfilled, Settle 0 Fulfilled] initial) (2, 0)) =
     Some (js ''New Analysis'')"
  by (simp add: eval_defs exchange_defs initial_def createNewSession_def title_defs
      asciiRuntime_def)

text \<open>
  The title is rewritten only when the session was created for the submission or
  the displayed list of the submitting render is empty. After a switch from a
  session with messages to an empty one the displayed list is replaced only by the
  first snapshot of the new listener; a submission before that snapshot sends the
  other session's messages as history and leaves the placeholder title.
\<close>

lemma title_kept_when_display_is_stale:
  "messagesDb
     (run asciiRuntime
        [AuthChanged (Some 2), Effects, NewChat, Settle 0 Fulfilled, Effects,
         NewChat, Settle 0 Fulfilled, Effects,
         Type (js ''Who leads NATO?''), Submit, Settle 0 Fulfilled,
         Settle 0 (Replied (OkJson (js ''A secretary general.'') (Some []))),
         Settle 0 Fulfilled, Settle 0 Fulfilled,
         Snapshot 1 [userTurn (js ''Who leads NATO?''),
                     botTurn (js ''A secretary general.'') (Some [])],
         Select 0, Effects, Type (js ''Why do sanctions fail?''), Submit, Settle 0 Fulfilled,
         Settle 0 (Replied (OkJson (js ''They leak.'') (Some []))), Settle 0 Fulfilled]
        initial) (2, 0) =
     [userTurn (js ''Why do sanctions fail?''), botTurn (js ''They leak.'') (Some [])] \<and>
   map_option title
     (sessionsDb
        (run asciiRuntime
           [AuthChanged (Some 2), Effects, NewChat, Settle 0 Fulfilled, Effects,
            NewChat, Settle 0 Fulfilled, Effects,
            Type (js ''Who leads NATO?''), Submit, Settle 0 Fulfilled,
            Settle 0 (Replied (OkJson (js ''A secretary general.'') (Some []))),
            Settle 0 Fulfilled, Settle 0 Fulfilled,
            Snapshot 1 [userTurn (js ''Who leads NATO?''),
                        botTurn (js ''A secretary general.'') (Some [])],
            Select 0, Effects, Type (js ''Why do sanctions fail?''), Submit, Settle 0 Fulfilled,
            Settle 0 (Replied (OkJson (js ''They leak.'') (Some []))), Settle 0 Fulfilled]
           initial) (2, 0)) = Some (js ''New Analysis'') \<and>
   map chat_history
     (requests
        (run asciiRuntime
           [AuthChanged (Some 2), Effects, NewChat, Settle 0 Fulfilled, Effects,
            NewChat, Settle 0 Fulfilled, Effects,
            Type (js ''Who leads NATO?''), Submit, Settle 0 Fulfilled,
            Settle 0 (Replied (OkJson (js ''A secretary general.'') (Some []))),
            Settle 0 Fulfilled, Settle 0 Fulfilled,
            Snapshot 1 [userTurn (js ''Who leads NATO?''),
                        botTurn (js ''A secretary general.'') (Some [])],
            Select 0, Effects, Type (js ''Why do sanctions fail?''), Submit, Settle 0 Fulfilled,
            Settle 0 (Replied (OkJson (js ''They leak.'') (Some []))), Settle 0 Fulfilled]
           initial)) =
     [[], [(User, js ''Who leads NATO?''), (Bot, js ''A secretary general.'')]]"
  by code_simp




lemma exchange_keeps_title:
  assumes "map_option title (sessionsDb st (x_user x, x_sessionId x)) =
             Some (generateSessionTitle rt (x_queryText x))"
    and "tasks st = [] \<or> (\<exists>t. tasks st = [t] \<and> exchangeOf t = Some x)"
  shows "map_option title (sessionsDb (step rt (Settle 0 out) st) (x_user x, x_sessionId x)) =
             Some (generateSessionTitle rt (x_queryText x)) \<and>
         (tasks (step rt (Settle 0 out) st) = [] \<or>
          (\<exists>t. tasks (step rt (Settle 0 out) st) = [t] \<and> exchangeOf t = Some x))"
proof (cases "tasks st")
  case Nil
  with assms show ?thesis
    by (simp add: run_defs)
next
  case (Cons t ts)
  with assms have t: "tasks st = [t]" "exchangeOf t = Some x"
    by auto
  let ?st = "st\<lparr>tasks := []\<rparr>"
  show ?thesis
  proof (cases "resume rt t out ?st")
    case None
    with assms t show ?thesis
      by (simp add: run_defs)
  next
    case (Some st')
    with t assms(1) have "map_option title (sessionsDb st' (x_user x, x_sessionId x)) =
             Some (generateSessionTitle rt (x_queryText x)) \<and>
         (tasks st' = [] \<or> (\<exists>t'. tasks st' = [t'] \<and> exchangeOf t' = Some x))"
      by (cases "(rt, t, out, ?st)" rule: resume.cases)
         (auto simp: exchange_defs Let_def split: option.splits if_splits)
    with Some t show ?thesis
      by (simp add: run_defs)
  qed
qed

lemma exchange_run_keeps_title:
  assumes "map_option title (sessionsDb st (x_user x, x_sessionId x)) =
             Some (generateSessionTitle rt (x_queryText x))"
    and "tasks st = [] \<or> (\<exists>t. tasks st = [t] \<and> exchangeOf t = Some x)"
  shows "map_option title (sessionsDb (run rt (map (Settle 0) outs) st) (x_user x, x_sessionId x)) =
             Some (generateSessionTitle rt (x_queryText x))"
  using assms
proof (induction outs arbitrary: st)
  case Nil
  then show ?case by simp
next
  case (Cons out outs)
  from exchange_keeps_title [OF Cons.prems, of out] Cons.IH [of "step rt (Settle 0 out) st"]
  show ?case
    by simp
qed

text \<open>
  C10. A signed-in user submits a non-blank text with no session selected and
  nothing pending. The submission alone writes nothing; when the store
  acknowledges the new session document, the document carries the title generated
  from the submitted text, the session is selected, no message has been stored
  and the write of the user turn has only been issued. However the promises of
  the exchange settle afterwards, the title of the session stays the generated
  one.
\<close>

theorem implicit_session_titled_at_creation:
  assumes "user st = Some u" "currentSessionId st = None" "tasks st = []" "\<not> isLoading st"
    and "trim (userInput st) \<noteq> []"
  shows "sessionsDb (step rt Submit st) = sessionsDb st \<and>
    (let st1 = run rt [Submit, Settle 0 Fulfilled] st
     in sessionsDb st1 (u, nextId st) =
          Some \<lparr>session_id = nextId st, title = generateSessionTitle rt (userInput st),
                 createdAt = Some (clock st), isPinned = False\<rparr> \<and>
        currentSessionId st1 = Some (nextId st) \<and>
        messagesDb st1 = messagesDb st \<and>
        tasks st1 = [UserTurn \<lparr>x_user = u, x_sessionId = nextId st, x_queryText = userInput st,
                                 x_isNewSession = True, x_messages = messages st\<rparr>] \<and>
        (\<forall>outs. map_option title (sessionsDb (run rt (map (Settle 0) outs) st1) (u, nextId st)) =
                  Some (generateSessionTitle rt (userInput st))))"
proof -
  let ?x = "\<lparr>x_user = u, x_sessionId = nextId st, x_queryText = userInput st,
             x_isNewSession = True, x_messages = messages st\<rparr>"
  let ?st1 = "step rt (Settle 0 Fulfilled) (step rt Submit st)"
  have unfold: "run rt [Submit, Settle 0 Fulfilled] st = ?st1"
    by simp
  from assms have created: "sessionsDb ?st1 (u, nextId st) =
          Some \<lparr>session_id = nextId st, title = generateSessionTitle rt (userInput st),
                 createdAt = Some (clock st), isPinned = False\<rparr>"
    and rest: "currentSessionId ?st1 = Some (nextId st)" "messagesDb ?st1 = messagesDb st"
       "tasks ?st1 = [UserTurn ?x]" "sessionsDb (step rt Submit st) = sessionsDb st"
    by (simp_all add: run_defs exchange_defs)
  have "map_option title (sessionsDb (run rt (map (Settle 0) outs) ?st1) (x_user ?x, x_sessionId ?x)) =
          Some (generateSessionTitle rt (x_queryText ?x))" for outs
    by (rule exchange_run_keeps_title) (simp_all add: created rest)
  then have later: "\<forall>outs. map_option title
                       (sessionsDb (run rt (map (Settle 0) outs) ?st1) (u, nextId st)) =
          Some (generateSessionTitle rt (userInput st))"
    by simp
  show ?thesis
    unfolding unfold Let_def using created rest later by blast
qed

theorem implicit_session_titled_at_creation_witness:
  "map_option title
     (sessionsDb
        (run asciiRuntime
           [AuthChanged (Some 2), Type (js ''Why do sanctions fail?''), Submit, Settle 0 Fulfilled]
           initial) (2, 0)) = Some (js ''Do sanctions fail'') \<and>
   messagesDb
     (run asciiRuntime
        [AuthChanged (Some 2), Type (js ''Why do sanctions fail?''), Submit, Settle 0 Fulfilled]
        initial) (2, 0) = [] \<and>
   map_option title
     (sessionsDb
        (run asciiRuntime
           [AuthChanged (Some 2), Type (js ''Why do sanctions fail?''), Submit, Settle 0 Fulfilled,
            Settle 0 (Rejected (js ''offline'')), Settle 0 (Rejected (js ''offline''))]
           initial) (2, 0)) = Some (js ''Do sanctions fail'')"
proof -
  define st where
    "st = run asciiRuntime [AuthChanged (Some 2), Type (js ''Why do sanctions fail?'')] initial"
  have h: "user st = Some 2" "currentSessionId st = None" "tasks st = []" "\<not> isLoading st"
    and input: "userInput st = js ''Why do sanctions fail?''" "nextId st = 0"
       "messagesDb st = (\<lambda>_. [])"
    unfolding st_def
    by (simp_all add: eval_defs initial_def)
  have nonblank: "trim (userInput st) \<noteq> []"
    by (simp add: input trim_def isWhiteSpace_def js_def)
  have gen: "generateSessionTitle asciiRuntime (js ''Why do sanctions fail?'') =
             js ''Do sanctions fail''"
    by (simp add: title_defs)
  have created: "run asciiRuntime
           [AuthChanged (Some 2), Type (js ''Why do sanctions fail?''), Submit, Settle 0 Fulfilled]
           initial = run asciiRuntime [Submit, Settle 0 Fulfilled] st"
    unfolding st_def by simp
  have later: "run asciiRuntime
           [AuthChanged (Some 2), Type (js ''Why do sanctions fail?''), Submit, Settle 0 Fulfilled,
            Settle 0 (Rejected (js ''offline'')), Settle 0 (Rejected (js ''offline''))]
           initial =
         run asciiRuntime
           (map (Settle 0) [Rejected (js ''offline''), Rejected (js ''offline'')])
           (run asciiRuntime [Submit, Settle 0 Fulfilled] st)"
    unfolding st_def by simp
  from implicit_session_titled_at_creation [OF h nonblank, of asciiRuntime]
  have "sessionsDb (run asciiRuntime [Submit, Settle 0 Fulfilled] st) (2, 0) =
          Some \<lparr>session_id = 0, title = js ''Do sanctions fail'', createdAt = Some (clock st),
                 isPinned = False\<rparr> \<and>
        messagesDb (run asciiRuntime [Submit, Settle 0 Fulfilled] st) = (\<lambda>_. []) \<and>
        (\<forall>outs. map_option title
                  (sessionsDb (run asciiRuntime (map (Settle 0) outs)
                     (run asciiRuntime [Submit, Settle 0 Fulfilled] st)) (2, 0)) =
                Some (js ''Do sanctions fail''))"
    unfolding Let_def input gen by blast
  then have now: "sessionsDb (run asciiRuntime [Submit, Settle 0 Fulfilled] st) (2, 0) =
          Some \<lparr>session_id = 0, title = js ''Do sanctions fail'', createdAt = Some (clock st),
                 isPinned = False\<rparr>"
      "messagesDb (run asciiRuntime [Submit, Settle 0 Fulfilled] st) = (\<lambda>_. [])"
    and ever: "map_option title
                 (sessionsDb (run asciiRuntime
                    (map (Settle 0) [Rejected (js ''offline''), Rejected (js ''offline'')])
                    (run asciiRuntime [Submit, Settle 0 Fulfilled] st)) (2, 0)) =
               Some (js ''Do sanctions fail'')"
    by blast+
  show ?thesis
    unfolding created later using now ever by simp
qed

section \<open>Concurrent submissions\<close>

text \<open>While the loading flag is set, a submission changes nothing.\<close>

lemma submit_while_loading: "isLoading st \<Longrightarrow> step rt Submit st = st"
  by (simp add: eval_defs)

text \<open>
  C5 (one exchange in flight for a session). With no session selected, two
  submissions in a row each create a session and start an exchange, since the
  loading flag is raised only after the creation is acknowledged. When the
  exchange of the first session ends it clears the flag while the exchange of the
  second, selected session is still in flight, and the next submission starts
  another exchange in that session: two calls of \<open>getAnalysis\<close> are suspended
  for it, and the user turns of both are stored before either has its answer.
\<close>

theorem concurrent_exchanges_in_one_session:
  "inFlight 2 1
     (run rt [AuthChanged (Some 2), Type (js ''q''), Submit, Submit, Settle 0 Fulfilled,
              Settle 0 Fulfilled, Settle 0 Fulfilled, Settle 1 (Replied (OkJson (js ''a'') None)),
              Settle 1 Fulfilled, Settle 1 Fulfilled, Type (js ''r''), Submit] initial) = 2 \<and>
   messagesDb
     (run rt [AuthChanged (Some 2), Type (js ''q''), Submit, Submit, Settle 0 Fulfilled,
              Settle 0 Fulfilled, Settle 0 Fulfilled, Settle 1 (Replied (OkJson (js ''a'') None)),
              Settle 1 Fulfilled, Settle 1 Fulfilled, Type (js ''r''), Submit,
              Settle 0 Fulfilled, Settle 0 Fulfilled] initial) (2, 1) =
     [userTurn (js ''q''), userTurn (js ''r'')]"
  by (simp add: eval_defs exchange_defs initial_def inFlight_def trim_def isWhiteSpace_def
      js_def Let_def)

end
